theory Spec2Isabelle
  imports Complex_Main
begin

section \<open>Python values and exceptions\<close>

text \<open>
  The module \<^verbatim>\<open>voevent.py\<close> works on dynamically typed values. The scalar values that an
  attribute, a text or a converted value can hold are collected in \<open>pyval\<close>; the
  exceptions the code can raise are the constructors of \<open>error\<close>, and a function that
  may raise returns \<open>error + 'a\<close> with \<open>Inl\<close> for the exception.

  Strings are lists of 8-bit characters, read as the code points U+0000 to U+00FF.
  A float carries the exact value of the decimal it was read from: of the rounding to
  binary64 only the overflow to infinity and the underflow to zero are modelled, and
  \<open>-0.0\<close> and \<open>0.0\<close> coincide.
\<close>

datatype error =
  AssertionError | AttributeError | IndexError | KeyError | OverflowError | TypeError | ValueError

datatype pyfloat = Finite rat | Infinity bool | NaN

datatype datetime = Datetime (year: int) (month: int) (day: int)
  (hour: int) (minute: int) (second: int) (microsecond: int)

datatype pyval =
  PNone | PStr string | PBool bool | PInt int | PFloat pyfloat | PDatetime datetime

text \<open>Sequencing of two steps, the second of which runs only if the first did not raise.\<close>

definition and_then :: "error + 'a \<Rightarrow> ('a \<Rightarrow> error + 'b) \<Rightarrow> error + 'b" where
  "and_then r f = (case r of Inl e \<Rightarrow> Inl e | Inr x \<Rightarrow> f x)"

text \<open>Truth value of a scalar, as \<^verbatim>\<open>if x:\<close> tests it.\<close>

fun truthy :: "pyval \<Rightarrow> bool" where
  "truthy PNone = False"
| "truthy (PStr s) = (s \<noteq> [])"
| "truthy (PBool b) = b"
| "truthy (PInt i) = (i \<noteq> 0)"
| "truthy (PFloat (Finite q)) = (q \<noteq> 0)"
| "truthy (PFloat _) = True"
| "truthy (PDatetime _) = True"

section \<open>String built-ins\<close>

definition is_digit :: "char \<Rightarrow> bool" where
  "is_digit c = (c \<in> set ''0123456789'')"

definition digit_val :: "char \<Rightarrow> int" where
  "digit_val c = of_char c - 48"

definition digits_val :: "string \<Rightarrow> int" where
  "digits_val ds = foldl (\<lambda>a c. 10 * a + digit_val c) 0 ds"

text \<open>The characters below U+0100 for which \<^verbatim>\<open>str.isspace\<close> holds.\<close>

definition py_isspace :: "char \<Rightarrow> bool" where
  "py_isspace c = (c \<in> set [CHR 0x09, CHR 0x0A, CHR 0x0B, CHR 0x0C, CHR 0x0D,
     CHR 0x1C, CHR 0x1D, CHR 0x1E, CHR 0x1F, CHR 0x20, CHR 0x85, CHR 0xA0])"

definition py_strip :: "string \<Rightarrow> string" where
  "py_strip s = rev (dropWhile py_isspace (rev (dropWhile py_isspace s)))"

text \<open>\<^verbatim>\<open>str.lower\<close> on the characters below U+0100.\<close>

definition lower_char :: "char \<Rightarrow> char" where
  "lower_char c = (let n = (of_char c :: nat) in
     if n = 215 then c
     else if (65 \<le> n \<and> n \<le> 90) \<or> (192 \<le> n \<and> n \<le> 222) then char_of (n + 32)
     else c)"

definition py_lower :: "string \<Rightarrow> string" where
  "py_lower s = map lower_char s"

text \<open>
  \<^verbatim>\<open>s.split(sep, maxsplit=1)\<close> for a one-character separator: \<open>None\<close> stands for the
  one-element list (no separator found), \<open>Some (a, b)\<close> for the list \<open>[a, b]\<close>.
\<close>

definition split_once :: "char \<Rightarrow> string \<Rightarrow> (string \<times> string) option" where
  "split_once sep s = (if sep \<in> set s
     then Some (takeWhile (\<lambda>c. c \<noteq> sep) s, tl (dropWhile (\<lambda>c. c \<noteq> sep) s)) else None)"

text \<open>
  \<^verbatim>\<open>s.split(maxsplit=1)\<close>, splitting at whitespace: \<open>Some (a, b)\<close> is the two-element
  list; \<open>None\<close> is a list of zero or one element. The first word starts after the
  leading whitespace; the remainder loses its leading whitespace only.
\<close>

definition split_ws_once :: "string \<Rightarrow> (string \<times> string) option" where
  "split_ws_once s = (let s1 = dropWhile py_isspace s;
       w = takeWhile (\<lambda>c. \<not> py_isspace c) s1;
       r = dropWhile py_isspace (dropWhile (\<lambda>c. \<not> py_isspace c) s1)
     in if w \<noteq> [] \<and> r \<noteq> [] then Some (w, r) else None)"

text \<open>\<^verbatim>\<open>s.split(sep)\<close> without a limit: always at least one piece.\<close>

fun split_all :: "char \<Rightarrow> string \<Rightarrow> string list" where
  "split_all sep [] = [[]]"
| "split_all sep (c # cs) = (if c = sep then [] # split_all sep cs
     else (case split_all sep cs of p # ps \<Rightarrow> (c # p) # ps | [] \<Rightarrow> [[c]]))"

text \<open>\<^verbatim>\<open>s.split(sep, maxsplit=n)\<close>: at most \<open>n\<close> cuts, the last piece keeps the rest.\<close>

fun split_max :: "char \<Rightarrow> nat \<Rightarrow> string \<Rightarrow> string list" where
  "split_max sep 0 s = [s]"
| "split_max sep (Suc n) s = (case split_once sep s of
     None \<Rightarrow> [s] | Some (a, b) \<Rightarrow> a # split_max sep n b)"

section \<open>Numeric built-ins\<close>

text \<open>
  Numeric literals may group digits with single underscores; an underscore must stand
  between two digits. \<open>drop_underscores\<close> removes them, or fails.
\<close>

fun drop_underscores :: "char option \<Rightarrow> string \<Rightarrow> string option" where
  "drop_underscores p [] = Some []"
| "drop_underscores p (c # cs) =
     (if c = CHR ''_'' then
        (case (p, cs) of
           (Some q, d # _) \<Rightarrow> if is_digit q \<and> is_digit d then drop_underscores (Some c) cs else None
         | _ \<Rightarrow> None)
      else map_option ((#) c) (drop_underscores (Some c) cs))"

definition split_sign :: "string \<Rightarrow> bool \<times> string" where
  "split_sign s = (case s of
     c # cs \<Rightarrow> if c = CHR ''-'' then (True, cs) else if c = CHR ''+'' then (False, cs) else (False, s)
   | [] \<Rightarrow> (False, s))"

text \<open>\<^verbatim>\<open>int(s)\<close> for a string, base 10; \<open>None\<close> is the \<^verbatim>\<open>ValueError\<close>.\<close>

definition int_of_str :: "string \<Rightarrow> int option" where
  "int_of_str s = (case drop_underscores None (py_strip s) of
     None \<Rightarrow> None
   | Some t \<Rightarrow> (let (neg, ds) = split_sign t in
       if ds \<noteq> [] \<and> list_all is_digit ds
       then Some (if neg then - digits_val ds else digits_val ds)
       else None))"

text \<open>
  A finite decimal becomes infinite where binary64 rounds it beyond the largest double,
  that is from \<open>2^1024 - 2^970\<close> on, and zero where binary64 rounds it to zero, that is
  up to half the smallest subnormal, \<open>2^-1075\<close>.
\<close>

definition float_round :: "rat \<Rightarrow> pyfloat" where
  "float_round q = (if 2 ^ 1024 - 2 ^ 970 \<le> \<bar>q\<bar> then Infinity (q < 0)
     else if \<bar>q\<bar> \<le> 1 / 2 ^ 1075 then Finite 0 else Finite q)"

definition pow10 :: "int \<Rightarrow> rat" where
  "pow10 e = (if 0 \<le> e then 10 ^ nat e else 1 / 10 ^ nat (- e))"

text \<open>The exponent part of a float literal: empty, or \<^verbatim>\<open>e\<close>, an optional sign and digits.\<close>

definition exponent_of :: "string \<Rightarrow> int option" where
  "exponent_of r = (case r of
     [] \<Rightarrow> Some 0
   | c # cs \<Rightarrow> if c = CHR ''e'' \<or> c = CHR ''E'' then
       (let (neg, ds) = split_sign cs in
        if ds \<noteq> [] \<and> list_all is_digit ds
        then Some (if neg then - digits_val ds else digits_val ds) else None)
     else None)"

text \<open>\<^verbatim>\<open>float(s)\<close> for a string; \<open>None\<close> is the \<^verbatim>\<open>ValueError\<close>.\<close>

definition float_of_str :: "string \<Rightarrow> pyfloat option" where
  "float_of_str s = (case drop_underscores None (py_strip s) of
     None \<Rightarrow> None
   | Some t \<Rightarrow> (let (neg, u) = split_sign t in
       if py_lower u = ''inf'' \<or> py_lower u = ''infinity'' then Some (Infinity neg)
       else if py_lower u = ''nan'' then Some NaN
       else (let ip = takeWhile is_digit u; r1 = dropWhile is_digit u;
                 fp = (case r1 of c # cs \<Rightarrow> if c = CHR ''.'' then takeWhile is_digit cs else [] | [] \<Rightarrow> []);
                 r2 = (case r1 of c # cs \<Rightarrow> if c = CHR ''.'' then dropWhile is_digit cs else r1 | [] \<Rightarrow> [])
             in if ip @ fp = [] then None
                else (case exponent_of r2 of
                   None \<Rightarrow> None
                 | Some e \<Rightarrow> (let q = of_int (digits_val (ip @ fp)) * pow10 (e - int (length fp))
                     in Some (float_round (if neg then - q else q)))))))"

section \<open>Dates and times\<close>

text \<open>
  \<^verbatim>\<open>datetime.strptime(s, '%Y-%m-%dT%H:%M:%S')\<close> compiles the format to the regular
  expression
  \<^verbatim>\<open>(\d\d\d\d)-(1[0-2]|0[1-9]|[1-9])-(3[0-1]|[1-2]\d|0[1-9]|[1-9]| [1-9])T(2[0-3]|[0-1]\d|\d):([0-5]\d|\d):(6[0-1]|[0-5]\d|\d)\<close>,
  matched ignoring case at the start of the string. A matcher returns its matches in the
  order in which backtracking tries them, each with the rest of the input; the first
  match of the whole expression is the one the library takes.
\<close>

definition two_digits :: "(int \<Rightarrow> int \<Rightarrow> bool) \<Rightarrow> string \<Rightarrow> (int \<times> string) list" where
  "two_digits ok s = (case s of
     a # b # r \<Rightarrow> if is_digit a \<and> is_digit b \<and> ok (digit_val a) (digit_val b)
       then [(10 * digit_val a + digit_val b, r)] else []
   | _ \<Rightarrow> [])"

definition one_digit :: "(int \<Rightarrow> bool) \<Rightarrow> string \<Rightarrow> (int \<times> string) list" where
  "one_digit ok s = (case s of
     a # r \<Rightarrow> if is_digit a \<and> ok (digit_val a) then [(digit_val a, r)] else []
   | _ \<Rightarrow> [])"

definition lit :: "string \<Rightarrow> string \<Rightarrow> (int \<times> string) list" where
  "lit cs s = (case s of a # r \<Rightarrow> if a \<in> set cs then [(0, r)] else [] | _ \<Rightarrow> [])"

definition re_Y :: "string \<Rightarrow> (int \<times> string) list" where
  "re_Y s = (case s of
     a # b # c # d # r \<Rightarrow> if list_all is_digit [a, b, c, d] then [(digits_val [a, b, c, d], r)] else []
   | _ \<Rightarrow> [])"

definition re_m :: "string \<Rightarrow> (int \<times> string) list" where
  "re_m s = two_digits (\<lambda>a b. a = 1 \<and> b \<le> 2) s @ two_digits (\<lambda>a b. a = 0 \<and> 1 \<le> b) s
     @ one_digit (\<lambda>a. 1 \<le> a) s"

definition re_d :: "string \<Rightarrow> (int \<times> string) list" where
  "re_d s = two_digits (\<lambda>a b. a = 3 \<and> b \<le> 1) s @ two_digits (\<lambda>a b. 1 \<le> a \<and> a \<le> 2) s
     @ two_digits (\<lambda>a b. a = 0 \<and> 1 \<le> b) s @ one_digit (\<lambda>a. 1 \<le> a) s
     @ (case s of a # r \<Rightarrow> if a = CHR '' '' then one_digit (\<lambda>a. 1 \<le> a) r else [] | _ \<Rightarrow> [])"

definition re_H :: "string \<Rightarrow> (int \<times> string) list" where
  "re_H s = two_digits (\<lambda>a b. a = 2 \<and> b \<le> 3) s @ two_digits (\<lambda>a b. a \<le> 1) s
     @ one_digit (\<lambda>a. True) s"

definition re_M :: "string \<Rightarrow> (int \<times> string) list" where
  "re_M s = two_digits (\<lambda>a b. a \<le> 5) s @ one_digit (\<lambda>a. True) s"

definition re_S :: "string \<Rightarrow> (int \<times> string) list" where
  "re_S s = two_digits (\<lambda>a b. a = 6 \<and> b \<le> 1) s @ two_digits (\<lambda>a b. a \<le> 5) s
     @ one_digit (\<lambda>a. True) s"

definition seq :: "(string \<Rightarrow> (int \<times> string) list) \<Rightarrow> (int \<Rightarrow> string \<Rightarrow> ('b \<times> string) list)
    \<Rightarrow> string \<Rightarrow> ('b \<times> string) list" where
  "seq p f s = concat (map (\<lambda>(a, r). f a r) (p s))"

definition re_datetime :: "string \<Rightarrow> (datetime \<times> string) list" where
  "re_datetime =
     seq re_Y (\<lambda>y. seq (lit ''-'') (\<lambda>_. seq re_m (\<lambda>m. seq (lit ''-'') (\<lambda>_. seq re_d (\<lambda>d.
     seq (lit ''Tt'') (\<lambda>_. seq re_H (\<lambda>H. seq (lit '':'') (\<lambda>_. seq re_M (\<lambda>M. seq (lit '':'') (\<lambda>_.
     seq re_S (\<lambda>S r. [(Datetime y m d H M S 0, r)])))))))))))"

definition is_leap :: "int \<Rightarrow> bool" where
  "is_leap y = (if y mod 100 = 0 then y mod 400 = 0 else y mod 4 = 0)"

definition days_in_month :: "int \<Rightarrow> int \<Rightarrow> int" where
  "days_in_month y m = (if m = 2 then (if is_leap y then 29 else 28)
     else if m \<in> {4, 6, 9, 11} then 30 else 31)"

text \<open>
  The fields the \<^verbatim>\<open>datetime\<close> constructor accepts: years 1 to 9999, a day that the month
  has, seconds up to 59 (the expression lets 60 and 61 through, the constructor does not).
\<close>

definition valid_datetime :: "datetime \<Rightarrow> bool" where
  "valid_datetime t = (1 \<le> year t \<and> year t \<le> 9999 \<and> 1 \<le> month t \<and> month t \<le> 12
     \<and> 1 \<le> day t \<and> day t \<le> days_in_month (year t) (month t)
     \<and> 0 \<le> hour t \<and> hour t \<le> 23 \<and> 0 \<le> minute t \<and> minute t \<le> 59
     \<and> 0 \<le> second t \<and> second t \<le> 59 \<and> 0 \<le> microsecond t \<and> microsecond t \<le> 999999)"

text \<open>\<open>None\<close> is the \<^verbatim>\<open>ValueError\<close>: no match, unconverted data left over, or invalid fields.\<close>

definition strptime :: "string \<Rightarrow> datetime option" where
  "strptime s = (case re_datetime s of
     [] \<Rightarrow> None
   | (t, r) # _ \<Rightarrow> if r = [] \<and> valid_datetime t then Some t else None)"

subsection \<open>Adding a number of seconds\<close>

definition days_before_year :: "int \<Rightarrow> int" where
  "days_before_year y = 365 * (y - 1) + (y - 1) div 4 - (y - 1) div 100 + (y - 1) div 400"

definition days_before_month :: "int \<Rightarrow> int \<Rightarrow> int" where
  "days_before_month y m = sum_list (map (days_in_month y) [1..m - 1])"

definition ymd2ord :: "int \<Rightarrow> int \<Rightarrow> int \<Rightarrow> int" where
  "ymd2ord y m d = days_before_year y + days_before_month y m + d"

text \<open>
  The year of the day with ordinal \<open>n\<close>, searched upwards from \<open>y\<close>: the first year
  whose last day is not before \<open>n\<close>. (A year never has fewer days before it than its
  number less one, so the bound \<open>y < n\<close> does not cut the search short.)
\<close>

function year_from :: "int \<Rightarrow> int \<Rightarrow> int" where
  "year_from n y = (if y < n \<and> days_before_year (y + 1) < n then year_from n (y + 1) else y)"
  by pat_completeness auto
termination
  by (relation "measure (\<lambda>(n, y). nat (n - y))") auto

fun month_from :: "int \<Rightarrow> nat \<Rightarrow> int \<Rightarrow> int \<Rightarrow> int \<times> int" where
  "month_from y 0 m d = (m, d)"
| "month_from y (Suc k) m d = (if days_in_month y m < d
     then month_from y k (m + 1) (d - days_in_month y m) else (m, d))"

text \<open>
  The date of the day with proleptic Gregorian ordinal \<open>n \<ge> 1\<close> (day 1 is 0001-01-01).
  The search for the year starts at \<open>n div 366 + 1\<close>, which is never after it.
\<close>

definition ord2ymd :: "int \<Rightarrow> int \<times> int \<times> int" where
  "ord2ymd n = (let y = year_from n (n div 366 + 1);
       (m, d) = month_from y 11 1 (n - days_before_year y)
     in (y, m, d))"

definition round_half_even :: "rat \<Rightarrow> int" where
  "round_half_even q = (let f = \<lfloor>q\<rfloor>; r = q - of_int f in
     if r < 1 / 2 then f else if 1 / 2 < r then f + 1 else if even f then f else f + 1)"

text \<open>
  \<^verbatim>\<open>timedelta(0, x, 0)\<close> for a float \<open>x\<close>, as a number of microseconds: an infinite
  \<open>x\<close> cannot be converted, and the day count of the result is limited to 999999999.
\<close>

definition timedelta_seconds :: "pyfloat \<Rightarrow> error + int" where
  "timedelta_seconds x = (case x of
     Infinity _ \<Rightarrow> Inl OverflowError
   | NaN \<Rightarrow> Inl ValueError
   | Finite q \<Rightarrow> (let us = round_half_even (q * 1000000) in
       if \<bar>us div 86400000000\<bar> > 999999999 then Inl OverflowError else Inr us))"

text \<open>\<^verbatim>\<open>date + delta\<close>: the result must stay within the years 1 to 9999.\<close>

definition datetime_add :: "datetime \<Rightarrow> int \<Rightarrow> error + datetime" where
  "datetime_add t us = (let
       secs = ((ymd2ord (year t) (month t) (day t) * 24 + hour t) * 60 + minute t) * 60 + second t;
       total = secs * 1000000 + microsecond t + us;
       s = total div 1000000; mi = s div 60; h = mi div 60; n = h div 24
     in if n < 1 \<or> 3652059 < n then Inl OverflowError
        else (let (y, m, d) = ord2ymd n in
          Inr (Datetime y m d (h mod 24) (mi mod 60) (s mod 60) (total mod 1000000))))"

section \<open>Conversions between scalars\<close>

function dec_str :: "int \<Rightarrow> string" where
  "dec_str n = (if n < 10 then [char_of (48 + n)] else dec_str (n div 10) @ [char_of (48 + n mod 10)])"
  by pat_completeness auto
termination
  by (relation "measure nat") auto

definition int_str :: "int \<Rightarrow> string" where
  "int_str i = (if i < 0 then CHR ''-'' # dec_str (- i) else dec_str i)"

definition pad :: "nat \<Rightarrow> string \<Rightarrow> string" where
  "pad k s = replicate (k - length s) CHR ''0'' @ s"

text \<open>\<^verbatim>\<open>str(t)\<close> of a datetime: the ISO format with a space between date and time.\<close>

definition datetime_str :: "datetime \<Rightarrow> string" where
  "datetime_str t = pad 4 (dec_str (year t)) @ ''-'' @ pad 2 (dec_str (month t)) @ ''-''
     @ pad 2 (dec_str (day t)) @ '' '' @ pad 2 (dec_str (hour t)) @ '':''
     @ pad 2 (dec_str (minute t)) @ '':'' @ pad 2 (dec_str (second t))
     @ (if microsecond t = 0 then [] else ''.'' @ pad 6 (dec_str (microsecond t)))"

fun frac_digits :: "nat \<Rightarrow> rat \<Rightarrow> string" where
  "frac_digits 0 r = []"
| "frac_digits (Suc k) r = (if r = 0 then []
     else (let d = \<lfloor>r * 10\<rfloor> in char_of (48 + d) # frac_digits k (r * 10 - of_int d)))"

text \<open>
  \<^verbatim>\<open>str(x)\<close> of a float, as the plain decimal expansion of the value with at most 17
  fractional digits. (Python prints the shortest digits that round to the same binary64
  and switches to exponent notation for very large and very small values; no call of
  \<^verbatim>\<open>convert_value\<close> in the module passes a float together with a declared type, which
  is the only way to reach this function.)
\<close>

definition float_str :: "pyfloat \<Rightarrow> string" where
  "float_str x = (case x of
     NaN \<Rightarrow> ''nan''
   | Infinity neg \<Rightarrow> (if neg then ''-inf'' else ''inf'')
   | Finite q \<Rightarrow> (let a = \<bar>q\<bar>; f = frac_digits 17 (a - of_int \<lfloor>a\<rfloor>) in
       (if q < 0 then ''-'' else []) @ dec_str \<lfloor>a\<rfloor> @ ''.'' @ (if f = [] then ''0'' else f)))"

text \<open>\<^verbatim>\<open>int(v)\<close>, \<^verbatim>\<open>float(v)\<close> and \<^verbatim>\<open>str(v)\<close> on any scalar.\<close>

fun py_int :: "pyval \<Rightarrow> error + pyval" where
  "py_int (PStr s) = (case int_of_str s of None \<Rightarrow> Inl ValueError | Some i \<Rightarrow> Inr (PInt i))"
| "py_int (PInt i) = Inr (PInt i)"
| "py_int (PBool b) = Inr (PInt (if b then 1 else 0))"
| "py_int (PFloat (Finite q)) = Inr (PInt (if 0 \<le> q then \<lfloor>q\<rfloor> else \<lceil>q\<rceil>))"
| "py_int (PFloat (Infinity _)) = Inl OverflowError"
| "py_int (PFloat NaN) = Inl ValueError"
| "py_int (PDatetime _) = Inl TypeError"
| "py_int PNone = Inl TypeError"

fun py_float :: "pyval \<Rightarrow> error + pyval" where
  "py_float (PStr s) = (case float_of_str s of None \<Rightarrow> Inl ValueError | Some x \<Rightarrow> Inr (PFloat x))"
| "py_float (PInt i) = (case float_round (of_int i) of
     Finite q \<Rightarrow> Inr (PFloat (Finite q)) | _ \<Rightarrow> Inl OverflowError)"
| "py_float (PBool b) = Inr (PFloat (Finite (if b then 1 else 0)))"
| "py_float (PFloat x) = Inr (PFloat x)"
| "py_float (PDatetime _) = Inl TypeError"
| "py_float PNone = Inl TypeError"

fun py_str :: "pyval \<Rightarrow> string" where
  "py_str (PStr s) = s"
| "py_str (PInt i) = int_str i"
| "py_str (PBool b) = (if b then ''True'' else ''False'')"
| "py_str (PFloat x) = float_str x"
| "py_str (PDatetime t) = datetime_str t"
| "py_str PNone = ''None''"

section \<open>convert\_value\<close>

text \<open>
  The innermost attempt of \<^verbatim>\<open>convert_value\<close> (source lines 202 to 219), reached when the
  string is neither a truth word, an integer nor a float. The fractional seconds are cut
  off into \<open>fracsec\<close>; then date and time are joined with \<^verbatim>\<open>T\<close>, and this second split
  is applied to \<open>value\<close> itself, not to the part before the point: where it succeeds, the
  string handed to \<open>strptime\<close> still carries the fraction. Each \<^verbatim>\<open>ValueError\<close> is
  caught and leaves the string as it is; any other exception propagates.
\<close>

definition timestamp_stage :: "string \<Rightarrow> error + pyval" where
  "timestamp_stage value = (let
       (date0, fracsec) = (case split_once CHR ''.'' value of
           Some (d, f) \<Rightarrow> (d, Some (''0.'' @ f))
         | None \<Rightarrow> (value, None));
       date1 = (case split_ws_once value of
           Some (d, t) \<Rightarrow> d @ ''T'' @ t
         | None \<Rightarrow> date0)
     in case strptime date1 of
          None \<Rightarrow> Inr (PStr value)
        | Some dt \<Rightarrow> (case fracsec of
            None \<Rightarrow> Inr (PDatetime dt)
          | Some fs \<Rightarrow> (case float_of_str fs of
              None \<Rightarrow> Inr (PStr value)
            | Some x \<Rightarrow> (case and_then (timedelta_seconds x) (datetime_add dt) of
                Inl e \<Rightarrow> if e = ValueError then Inr (PStr value) else Inl e
              | Inr dt' \<Rightarrow> Inr (PDatetime dt')))))"

text \<open>The first block (source lines 189 to 219): conversion by the look of the string.\<close>

definition infer_value :: "pyval \<Rightarrow> error + pyval" where
  "infer_value tmpval = (case tmpval of
     PNone \<Rightarrow> Inr PNone
   | PStr s \<Rightarrow>
       if py_lower s \<in> set [''true'', ''yes''] then Inr (PBool True)
       else if py_lower s \<in> set [''false'', ''no''] then Inr (PBool False)
       else (case int_of_str s of
          Some i \<Rightarrow> Inr (PInt i)
        | None \<Rightarrow> (case float_of_str s of
            Some x \<Rightarrow> Inr (PFloat x)
          | None \<Rightarrow> timestamp_stage s))
   | _ \<Rightarrow> Inl AttributeError)"

text \<open>
  The second block (source lines 221 to 233): conversion to the declared type. It reads
  \<open>tmpval\<close>, the argument as passed, except in the boolean branch, which calls
  \<^verbatim>\<open>.lower()\<close> on \<open>value\<close>, the result of the first block.
\<close>

definition declared_value :: "pyval \<Rightarrow> pyval \<Rightarrow> pyval \<Rightarrow> error + pyval" where
  "declared_value tmpval value datatype =
     (if truthy tmpval then
        (if datatype = PStr ''int'' then py_int tmpval
         else if datatype = PStr ''float'' then py_float tmpval
         else if datatype = PStr ''string'' then Inr (PStr (py_str tmpval))
         else if datatype \<in> set [PStr ''bool'', PStr ''boolean''] then
           (case value of
              PStr s \<Rightarrow>
                if py_lower s \<in> set [''true'', ''yes''] then Inr (PBool True)
                else if py_lower s \<in> set [''false'', ''no''] then Inr (PBool False)
                else Inr value
            | _ \<Rightarrow> Inl AttributeError)
         else Inr value)
      else Inr value)"

definition convert_value :: "pyval \<Rightarrow> string \<Rightarrow> pyval \<Rightarrow> error + pyval" where
  "convert_value value conversion datatype =
     and_then (if conversion \<in> set [''force'', ''always''] then infer_value value else Inr value)
       (\<lambda>v. if conversion \<in> set [''always'', ''given''] then declared_value value v datatype
            else Inr v)"

section \<open>XML elements and dictionaries\<close>

text \<open>
  An element of \<^verbatim>\<open>xml.etree.ElementTree\<close>: its tag, its text (\<open>None\<close> where there is
  none), its attribute dictionary in document order and its children. The type of the
  attribute values is a parameter: the XML parser delivers strings, and
  \<^verbatim>\<open>parse_element\<close> stores converted values into the same dictionary.

  A dictionary is an association list in insertion order with distinct keys.
\<close>

datatype 'v element =
  Element (tag: string) (etext: "string option") (attrib: "(string \<times> 'v) list")
    (children: "'v element list")

text \<open>\<^verbatim>\<open>d[k]\<close>, \<^verbatim>\<open>d[k] = v\<close>, and an optional string as a value.\<close>

definition dict_item :: "(string \<times> 'v) list \<Rightarrow> string \<Rightarrow> error + 'v" where
  "dict_item d k = (case map_of d k of None \<Rightarrow> Inl KeyError | Some v \<Rightarrow> Inr v)"

fun dict_set :: "(string \<times> 'v) list \<Rightarrow> string \<Rightarrow> 'v \<Rightarrow> (string \<times> 'v) list" where
  "dict_set [] k v = [(k, v)]"
| "dict_set ((k', v') # d) k v = (if k' = k then (k, v) # d else (k', v') # dict_set d k v)"

definition dict_get :: "(string \<times> pyval) list \<Rightarrow> string \<Rightarrow> pyval" where
  "dict_get d k = (case map_of d k of None \<Rightarrow> PNone | Some v \<Rightarrow> v)"

definition opt_val :: "string option \<Rightarrow> pyval" where
  "opt_val x = (case x of None \<Rightarrow> PNone | Some s \<Rightarrow> PStr s)"

text \<open>
  \<^verbatim>\<open>e.findall(path)\<close> and \<^verbatim>\<open>e.find(path)\<close> for a path of tags separated by
  \<^verbatim>\<open>/\<close>, given as the list of its tags: the matching descendants in document order, and
  the first of them.
\<close>

fun findall :: "string list \<Rightarrow> 'v element \<Rightarrow> 'v element list" where
  "findall [] e = [e]"
| "findall (t # path) e = concat (map (findall path) (filter (\<lambda>c. tag c = t) (children e)))"

definition find_el :: "string list \<Rightarrow> 'v element \<Rightarrow> 'v element option" where
  "find_el path e = (case findall path e of [] \<Rightarrow> None | c # _ \<Rightarrow> Some c)"

section \<open>The flattener: parse\_element and xml2python\<close>

text \<open>
  The dictionary that \<^verbatim>\<open>parse_element\<close> returns, with the key \<^verbatim>\<open>children\<close> that
  \<^verbatim>\<open>xml2python\<close> adds to it (empty until then).
\<close>

datatype node =
  Node (n_tag: string) (n_name: pyval) (n_text: "string option")
    (n_attributes: "(string \<times> pyval) list") (n_value: pyval) (n_children: "node list")

text \<open>
  The loop of \<^verbatim>\<open>parse_element\<close> over \<^verbatim>\<open>attribs.items()\<close> (source lines 43 to 46):
  every value but that of the key \<^verbatim>\<open>value\<close> is replaced by its conversion.
\<close>

fun convert_attribs :: "string \<Rightarrow> (string \<times> pyval) list \<Rightarrow> error + (string \<times> pyval) list" where
  "convert_attribs conversion [] = Inr []"
| "convert_attribs conversion ((key, v) # rest) =
     and_then (if key = ''value'' then Inr v else convert_value v conversion PNone)
       (\<lambda>v'. and_then (convert_attribs conversion rest) (\<lambda>rest'. Inr ((key, v') # rest')))"

text \<open>
  \<^verbatim>\<open>parse_element\<close> binds \<open>attribs\<close> to the element's own dictionary and assigns into
  it, so the call changes the element: the function returns the element as it is after
  the call, next to the dictionary it builds, whose \<^verbatim>\<open>attributes\<close> are that same
  dictionary.
\<close>

definition parse_element :: "pyval element \<Rightarrow> string \<Rightarrow> bool \<Rightarrow> error + (pyval element \<times> node)" where
  "parse_element element conversion stripws = (let
       attribs = attrib element;
       datatype = dict_get attribs ''dataType'';
       text = (case etext element of
           None \<Rightarrow> None
         | Some t \<Rightarrow> if t \<noteq> [] then Some (if stripws then py_strip t else t) else None)
     in and_then
          (if truthy (dict_get attribs ''value'') then
             and_then (dict_item attribs ''value'') (\<lambda>v. convert_value v conversion datatype)
           else if truthy (opt_val text) then convert_value (opt_val text) conversion datatype
           else Inr PNone)
          (\<lambda>value. let name = (if truthy (dict_get attribs ''name'')
                                then dict_get attribs ''name'' else PStr (tag element))
            in and_then (convert_attribs conversion attribs)
              (\<lambda>attribs'. Inr (Element (tag element) (etext element) attribs' (children element),
                              Node (tag element) name text attribs' value []))))"

text \<open>
  The loop of \<^verbatim>\<open>xml2python\<close> over the children of an element (source lines 156 to
  177), with the recursive call for each child: it returns the children as the calls
  leave them, and the list \<open>data\<close>.
\<close>

fun xml2python_children :: "pyval element list \<Rightarrow> string \<Rightarrow> bool
    \<Rightarrow> error + (pyval element list \<times> node list)" where
  "xml2python_children [] conversion stripws = Inr ([], [])"
| "xml2python_children (Element t x a cs # rest) conversion stripws =
     and_then (parse_element (Element t x a cs) conversion stripws) (\<lambda>(child, entry).
     and_then (xml2python_children cs conversion stripws) (\<lambda>(cs', kids).
     and_then (xml2python_children rest conversion stripws) (\<lambda>(rest', data).
       Inr (Element t x (attrib child) cs' # rest',
            Node (n_tag entry) (n_name entry) (n_text entry) (n_attributes entry) (n_value entry) kids
              # data))))"

text \<open>The result of \<^verbatim>\<open>xml2python\<close>: a list, or a dictionary when \<open>parse_root\<close> is set.\<close>

datatype result = Data "node list" | Entry node

definition xml2python :: "pyval element \<Rightarrow> string \<Rightarrow> bool \<Rightarrow> bool \<Rightarrow> error + (pyval element \<times> result)" where
  "xml2python element conversion stripws parse_root =
     and_then (xml2python_children (children element) conversion stripws) (\<lambda>(cs', data).
       let element' = Element (tag element) (etext element) (attrib element) cs' in
       if parse_root then
         and_then (parse_element element' conversion stripws) (\<lambda>(element'', entry).
           Inr (element'', Entry (Node (n_tag entry) (n_name entry) (n_text entry)
                  (n_attributes entry) (n_value entry) data)))
       else Inr (element', Data data))"

section \<open>The class VOEvent\<close>

text \<open>
  The values the extractors store: scalars, dictionaries, lists, tuples and the two named
  tuples \<^verbatim>\<open>Param(value, unit, ucd)\<close> and \<^verbatim>\<open>Position2D(ra, dec, error)\<close>.
\<close>

datatype pyobj =
  Scalar pyval
| Dict "(string \<times> pyobj) list"
| List "pyobj list"
| Tuple "pyobj list"
| Param pyval pyval pyval
| Position2D pyval pyval pyval

text \<open>
  An instance. \<^verbatim>\<open>VOEvent.parse\<close> reads the tree as the XML parser built it, with
  strings for attribute values. The fields from \<open>options\<close> on are the attributes that
  \<^verbatim>\<open>__init__\<close> does not set: \<open>None\<close> means that the instance has no such attribute yet,
  and reading it raises \<^verbatim>\<open>AttributeError\<close>.
\<close>

record voevent =
  xmltree :: "string element"
  Who :: "string element option"
  What :: "string element option"
  WhereWhen :: "string element option"
  How :: "string element option"
  Why :: "string element option"
  Citations :: "string element option"
  Description :: "string element option"
  Reference :: "string element option"
  who :: "(string \<times> pyobj) list"
  what :: "(string \<times> pyobj) list"
  wherewhen :: "(string \<times> pyobj) list"
  how :: "(string \<times> pyobj) list"
  why :: "(string \<times> pyobj) list"
  position2d :: pyobj
  options :: "(string \<times> string) list option"
  version :: "(int \<times> int) option"
  role :: "string option"
  ivorn :: "string option"
  eventid :: "(string \<times> pyobj) list option"
  coordsystem :: "pyval option"
  coordtime :: "pyval option"
  citations :: "(string \<times> string option) list option"
  description :: "pyobj list option"

definition init :: "string element \<Rightarrow> voevent" where
  "init tree = \<lparr> xmltree = tree, Who = None, What = None, WhereWhen = None, How = None,
     Why = None, Citations = None, Description = None, Reference = None,
     who = [], what = [], wherewhen = [], how = [], why = [], position2d = Tuple [],
     options = None, version = None, role = None, ivorn = None, eventid = None,
     coordsystem = None, coordtime = None, citations = None, description = None \<rparr>"

subsection \<open>The head of parse: root tag, version, role, IVORN\<close>

definition starts_with :: "string \<Rightarrow> string \<Rightarrow> bool" where
  "starts_with p s = (take (length p) s = p)"

fun tails :: "string \<Rightarrow> string list" where
  "tails [] = [[]]"
| "tails (c # cs) = (c # cs) # tails cs"

text \<open>
  The expression
  \<^verbatim>\<open>\{http://www\.ivoa\.net/xml/VOEvent/v\d(\.\d(\.\d)?)?}VOEvent\<close>
  matched at the start of a string, and searched anywhere in the tag.
\<close>

definition tag_match :: "string \<Rightarrow> bool" where
  "tag_match s = (starts_with ''{http://www.ivoa.net/xml/VOEvent/v'' s \<and>
     (case drop (length ''{http://www.ivoa.net/xml/VOEvent/v'') s of
        [] \<Rightarrow> False
      | d # r \<Rightarrow> is_digit d \<and> (starts_with ''}VOEvent'' r \<or>
          (case r of
             p # d2 # r2 \<Rightarrow> p = CHR ''.'' \<and> is_digit d2 \<and> (starts_with ''}VOEvent'' r2 \<or>
               (case r2 of
                  q # d3 # r3 \<Rightarrow> q = CHR ''.'' \<and> is_digit d3 \<and> starts_with ''}VOEvent'' r3
                | _ \<Rightarrow> False))
           | _ \<Rightarrow> False))))"

definition root_tag_ok :: "string \<Rightarrow> bool" where
  "root_tag_ok t = list_ex tag_match (tails t)"

fun map_int :: "string list \<Rightarrow> error + int list" where
  "map_int [] = Inr []"
| "map_int (s # ss) = (case int_of_str s of
     None \<Rightarrow> Inl ValueError
   | Some i \<Rightarrow> and_then (map_int ss) (\<lambda>js. Inr (i # js)))"

text \<open>
  The decomposition of the IVORN (source lines 287 to 292): at most four cuts at
  \<^verbatim>\<open>/\<close>, the third and fourth piece are read (\<^verbatim>\<open>IndexError\<close> where there is none), and
  the fourth is cut once at \<^verbatim>\<open>#\<close> into exactly two pieces (\<^verbatim>\<open>ValueError\<close> otherwise).
\<close>

definition split_ivorn :: "string \<Rightarrow> error + (string \<times> pyobj) list" where
  "split_ivorn iv = (let keys = split_max CHR ''/'' 4 iv in
     if length keys \<le> 2 then Inl IndexError
     else (let authority = keys ! 2 in
       if length keys \<le> 3 then Inl IndexError
       else (case split_once CHR ''#'' (keys ! 3) of
          None \<Rightarrow> Inl ValueError
        | Some (resourcekey, localid) \<Rightarrow>
            Inr [(''authority'', Scalar (PStr authority)),
                 (''resourcekey'', Scalar (PStr resourcekey)),
                 (''localid'', Scalar (PStr localid))])))"

text \<open>Source lines 271 to 292.\<close>

definition parse_head :: "voevent \<Rightarrow> error + voevent" where
  "parse_head self = (let top = xmltree self; attribs = attrib top in
     if \<not> root_tag_ok (tag top) then Inl AssertionError
     else and_then (dict_item attribs ''version'') (\<lambda>v.
       and_then (map_int (split_all CHR ''.'' v)) (\<lambda>vs.
       and_then (case vs of
           [] \<Rightarrow> Inl ValueError
         | [a] \<Rightarrow> Inr (a, 0)
         | a # b # _ \<Rightarrow> Inr (a, b)) (\<lambda>(major, minor).
       if major \<noteq> 2 then Inl AssertionError
       else and_then (dict_item attribs ''role'') (\<lambda>r.
         if r \<notin> set [''observation'', ''prediction'', ''utility'', ''test''] then Inl AssertionError
         else and_then (dict_item attribs ''ivorn'') (\<lambda>iv.
           and_then (split_ivorn iv) (\<lambda>ident.
             Inr (self\<lparr>version := Some (major, minor), role := Some r, ivorn := Some iv,
                       eventid := Some ident\<rparr>))))))))"

subsection \<open>Who\<close>

definition author_keys :: "(string \<times> string) list" where
  "author_keys = zip
     [''title'', ''shortName'', ''logoURL'', ''contactName'', ''contactEmail'', ''contactPhone'',
      ''contributor'']
     [''title'', ''short'', ''logo'', ''name'', ''email'', ''phone'', ''contributor'']"

fun author_of :: "(string \<times> pyobj) list \<Rightarrow> string element list \<Rightarrow> (string \<times> pyobj) list" where
  "author_of author [] = author"
| "author_of author (grandchild # rest) =
     author_of (case map_of author_keys (tag grandchild) of
         None \<Rightarrow> author
       | Some key2 \<Rightarrow> dict_set author key2 (Scalar (opt_val (etext grandchild)))) rest"

fun who_children :: "(string \<times> pyobj) list \<Rightarrow> string element list \<Rightarrow> error + (string \<times> pyobj) list" where
  "who_children d [] = Inr d"
| "who_children d (child # rest) =
     (if tag child = ''Description'' then
        who_children (dict_set d ''description'' (Scalar (opt_val (etext child)))) rest
      else if tag child = ''AuthorIVORN'' then
        who_children (dict_set d ''ivorn'' (Scalar (opt_val (etext child)))) rest
      else if tag child = ''Date'' then
        and_then (convert_value (opt_val (etext child)) ''force'' PNone)
          (\<lambda>v. who_children (dict_set d ''date'' (Scalar v)) rest)
      else if tag child = ''Reference'' then
        who_children (dict_set d ''reference'' (Scalar (opt_val (etext child)))) rest
      else if tag child = ''Author'' then
        who_children (dict_set d ''author'' (Dict (author_of [] (children child)))) rest
      else who_children d rest)"

definition parse_who :: "voevent \<Rightarrow> error + voevent" where
  "parse_who self = (let found = findall [''Who''] (xmltree self) in
     if \<not> length found \<le> 1 then Inl AssertionError
     else (case found of
        [] \<Rightarrow> Inr (self\<lparr>who := []\<rparr>)
      | w # _ \<Rightarrow> and_then (who_children [] (children w))
          (\<lambda>d. Inr (self\<lparr>Who := Some w, who := d\<rparr>))))"

subsection \<open>What\<close>

text \<open>
  The loop of \<^verbatim>\<open>parse_what_group\<close> over the children of a group, with the recursive
  call for a nested \<^verbatim>\<open>Group\<close>. The recursive call reads \<^verbatim>\<open>self.options\<close> again, which
  nothing has changed in between, so \<open>conversion\<close> is passed along.
\<close>

fun what_children :: "string \<Rightarrow> (string \<times> pyobj) list \<Rightarrow> string element list
    \<Rightarrow> error + (string \<times> pyobj) list" where
  "what_children conversion d [] = Inr d"
| "what_children conversion d (Element t x a cs # rest) =
     (if t \<notin> set [''Param'', ''Group''] then what_children conversion d rest
      else and_then (dict_item a ''name'') (\<lambda>name.
        if t = ''Param'' then
          and_then (convert_value (opt_val (map_of a ''value'')) conversion
                      (opt_val (map_of a ''dataType'')))
            (\<lambda>v. what_children conversion
                (dict_set d name (Param v (opt_val (map_of a ''unit'')) (opt_val (map_of a ''ucd''))))
                rest)
        else
          and_then (what_children conversion [] cs)
            (\<lambda>sub. what_children conversion (dict_set d name (Dict sub)) rest)))"

definition parse_what_group :: "voevent \<Rightarrow> string element \<Rightarrow> error + (string \<times> pyobj) list" where
  "parse_what_group self grp = (case options self of
     None \<Rightarrow> Inl AttributeError
   | Some opts \<Rightarrow> and_then (dict_item opts ''conversion'')
       (\<lambda>conversion. what_children conversion [] (children grp)))"

definition parse_what :: "voevent \<Rightarrow> error + voevent" where
  "parse_what self = (let found = findall [''What''] (xmltree self) in
     if \<not> length found \<le> 1 then Inl AssertionError
     else (case found of
        [] \<Rightarrow> Inr self
      | w # _ \<Rightarrow> and_then (parse_what_group (self\<lparr>What := Some w\<rparr>) w)
          (\<lambda>d. Inr (self\<lparr>What := Some w, what := d\<rparr>))))"

subsection \<open>WhereWhen\<close>

definition coord_systems :: "string list" where
  "coord_systems = [''TT-ICRS-TOPO'', ''UTC-ICRS-TOPO'', ''TT-FK5-TOPO'',
     ''UTC-FK5-TOPO'', ''GPS-ICRS-TOPO'', ''GPS-ICRS-TOPO'',
     ''GPS-FK5-TOPO'', ''GPS-FK5-TOPO'', ''TT-ICRS-GEO'',
     ''UTC-ICRS-GEO'', ''TT-FK5-GEO'', ''UTC-FK5-GEO'',
     ''GPS-ICRS-GEO'', ''GPS-ICRS-GEO'', ''TDB-ICRS-BARY'',
     ''TDB-FK5-BARY'', ''UTC-GEOD-TOPO'']"

text \<open>
  \<^verbatim>\<open>parse_coord_system\<close> sets \<^verbatim>\<open>self.coordsystem\<close> to \<^verbatim>\<open>None\<close> and returns the
  identifier, or \<^verbatim>\<open>None\<close> where the element has no \<^verbatim>\<open>AstroCoordSystem\<close> child.
\<close>

definition parse_coord_system :: "voevent \<Rightarrow> string element \<Rightarrow> error + (voevent \<times> pyval)" where
  "parse_coord_system self el = (let self1 = self\<lparr>coordsystem := Some PNone\<rparr> in
     case find_el [''AstroCoordSystem''] el of
       None \<Rightarrow> Inr (self1, PNone)
     | Some system \<Rightarrow> and_then (dict_item (attrib system) ''id'') (\<lambda>ident.
         if ident \<notin> set coord_systems then Inl ValueError else Inr (self1, PStr ident)))"

text \<open>
  The position (source lines 379 to 394), for the element \<open>obsloc\<close> found at
  \<^verbatim>\<open>ObsDataLocation/ObservationLocation\<close>.
\<close>

definition wherewhen_position :: "voevent \<Rightarrow> string element \<Rightarrow> error + voevent" where
  "wherewhen_position self obsloc = (case find_el [''AstroCoords'', ''Position2D''] obsloc of
     None \<Rightarrow> Inr self
   | Some pos \<Rightarrow> (case (find_el [''Name1''] pos, find_el [''Name2''] pos) of
       (Some name1, Some name2) \<Rightarrow>
         if etext name1 = Some ''RA'' \<and> etext name2 = Some ''Dec'' then
           (let ra = find_el [''Value2'', ''C1''] pos; dec = find_el [''Value2'', ''C2''] pos in
            and_then (case find_el [''Error2Radius''] pos of
                None \<Rightarrow> Inr PNone
              | Some err \<Rightarrow> py_float (opt_val (etext err))) (\<lambda>error.
            and_then (case (ra, dec) of
                (Some r, Some d) \<Rightarrow>
                  and_then (py_float (opt_val (etext r))) (\<lambda>rv.
                  and_then (py_float (opt_val (etext d))) (\<lambda>dv.
                    Inr (self\<lparr>position2d := Position2D rv dv error\<rparr>)))
              | _ \<Rightarrow> Inr self) (\<lambda>self1.
              Inr (self1\<lparr>wherewhen := dict_set (wherewhen self1) ''position2d'' (position2d self1)\<rparr>))))
         else Inr self
     | _ \<Rightarrow> Inr self))"

definition parse_wherewhen :: "voevent \<Rightarrow> error + voevent" where
  "parse_wherewhen self = (let found = findall [''WhereWhen''] (xmltree self) in
     if \<not> length found \<le> 1 then Inl AssertionError
     else and_then (case found of
         [] \<Rightarrow> Inr (self\<lparr>wherewhen := []\<rparr>)
       | w # _ \<Rightarrow> (case find_el [''ObsDataLocation'', ''ObservationLocation''] w of
           None \<Rightarrow> Inl AttributeError
         | Some obsloc \<Rightarrow>
             and_then (wherewhen_position (self\<lparr>wherewhen := [], WhereWhen := Some w\<rparr>) obsloc) (\<lambda>self1.
             and_then (parse_coord_system self1 obsloc) (\<lambda>(self2, system).
             and_then (case find_el [''AstroCoords'', ''Time'', ''TimeInstant'', ''ISOTime''] obsloc of
                 None \<Rightarrow> Inr PNone
               | Some time \<Rightarrow> convert_value (opt_val (etext time)) ''force'' PNone) (\<lambda>time.
               Inr (self2\<lparr>coordsystem := Some system, coordtime := Some time,
                   wherewhen := dict_set (dict_set (wherewhen self2) ''system'' (Scalar system))
                     ''time'' (Scalar time)\<rparr>))))))
       (\<lambda>self3. if coordsystem self3 = None \<or> coordtime self3 = None then Inl AttributeError
                 else Inr self3))"

subsection \<open>How, Why, Citations, Description, Reference\<close>

definition parse_how :: "voevent \<Rightarrow> error + voevent" where
  "parse_how self = (let found = findall [''How''] (xmltree self) in
     if \<not> length found \<le> 1 then Inl AssertionError
     else (case found of
        [] \<Rightarrow> Inr (self\<lparr>how := []\<rparr>)
      | h # _ \<Rightarrow> Inr (self\<lparr>how := [], How := Some h\<rparr>)))"

definition why_inference :: "string element \<Rightarrow> error + pyobj" where
  "why_inference inference =
     and_then (convert_value (opt_val (map_of (attrib inference) ''probability'')) ''force'' PNone) (\<lambda>prob.
     and_then (convert_value (opt_val (map_of (attrib inference) ''relation'')) ''force'' PNone) (\<lambda>rel.
     let name = (case find_el [''Name''] inference of None \<Rightarrow> PNone | Some n \<Rightarrow> opt_val (etext n)) in
     and_then (case find_el [''Concept''] inference of
         None \<Rightarrow> Inr (Scalar PNone)
       | Some c \<Rightarrow> (case etext c of
           None \<Rightarrow> Inl AttributeError
         | Some t \<Rightarrow> Inr (List (map (\<lambda>s. Scalar (PStr s)) (split_all CHR '';'' t))))) (\<lambda>concept.
       Inr (Dict [(''probability'', Scalar prob), (''relation'', Scalar rel),
                  (''name'', Scalar name), (''concept'', concept)]))))"

definition parse_why :: "voevent \<Rightarrow> error + voevent" where
  "parse_why self = (let found = findall [''Why''] (xmltree self) in
     if \<not> length found \<le> 1 then Inl AssertionError
     else (case found of
        [] \<Rightarrow> Inr (self\<lparr>why := []\<rparr>)
      | w # _ \<Rightarrow>
          and_then (convert_value (opt_val (map_of (attrib w) ''importance'')) ''force'' PNone) (\<lambda>importance.
          and_then (convert_value (opt_val (map_of (attrib w) ''expires'')) ''force'' PNone) (\<lambda>expires.
          let desc = (case find_el [''Description''] w of None \<Rightarrow> PStr [] | Some d \<Rightarrow> opt_val (etext d));
              d1 = dict_set (dict_set (dict_set [] ''importance'' (Scalar importance))
                     ''expires'' (Scalar expires)) ''description'' (Scalar desc)
          in and_then (case find_el [''Inference''] w of
                None \<Rightarrow> Inr d1
              | Some inference \<Rightarrow> and_then (why_inference inference)
                  (\<lambda>inf. Inr (dict_set d1 ''inference'' inf)))
               (\<lambda>d2. Inr (self\<lparr>Why := Some w, why := d2\<rparr>))))))"

fun citation_children :: "(string \<times> string option) list \<Rightarrow> string element list
    \<Rightarrow> error + (string \<times> string option) list" where
  "citation_children acc [] = Inr acc"
| "citation_children acc (cit # rest) =
     (if tag cit = ''EventIVORN'' then
        (case map_of (attrib cit) ''cite'' of
           None \<Rightarrow> Inl ValueError
         | Some cite \<Rightarrow>
             if cite \<notin> set [''followup'', ''supersedes'', ''retraction''] then Inl ValueError
             else citation_children (acc @ [(cite, etext cit)]) rest)
      else if tag cit = ''Description'' then
        citation_children (acc @ [(''description'', etext cit)]) rest
      else Inl ValueError)"

text \<open>
  \<^verbatim>\<open>parse_citations\<close>, \<^verbatim>\<open>parse_description\<close> and \<^verbatim>\<open>parse_reference\<close> take the first
  element with their tag (\<^verbatim>\<open>find\<close>) and do not count the matches. An element counts as
  true there when it has children.
\<close>

definition parse_citations :: "voevent \<Rightarrow> error + voevent" where
  "parse_citations self = (case find_el [''Citations''] (xmltree self) of
     None \<Rightarrow> Inr (self\<lparr>Citations := None, citations := Some []\<rparr>)
   | Some c \<Rightarrow>
       if children c = [] then Inr (self\<lparr>Citations := None, citations := Some []\<rparr>)
       else and_then (citation_children [] (children c))
         (\<lambda>cs. Inr (self\<lparr>Citations := Some c, citations := Some cs\<rparr>)))"

definition parse_description :: "voevent \<Rightarrow> error + voevent" where
  "parse_description self = (case find_el [''Description''] (xmltree self) of
     None \<Rightarrow> Inr (self\<lparr>Description := None, description := Some []\<rparr>)
   | Some d \<Rightarrow> (case children d of
       [] \<Rightarrow> Inr (self\<lparr>Description := None, description := Some []\<rparr>)
     | c # _ \<Rightarrow> Inr (self\<lparr>Description := Some c, description := Some []\<rparr>)))"

definition parse_reference :: "voevent \<Rightarrow> error + voevent" where
  "parse_reference self = (case find_el [''Reference''] (xmltree self) of
     None \<Rightarrow> Inr self
   | Some r \<Rightarrow> (case children r of
       [] \<Rightarrow> Inr self
     | c # _ \<Rightarrow> Inr (self\<lparr>Reference := Some c\<rparr>)))"

subsection \<open>parse\<close>

text \<open>The loop over the extractors (source lines 294 to 297), in the order of the source.\<close>

definition parse_sections :: "voevent \<Rightarrow> error + voevent" where
  "parse_sections s0 =
     and_then (parse_who s0) (\<lambda>s1.
     and_then (parse_what s1) (\<lambda>s2.
     and_then (parse_wherewhen s2) (\<lambda>s3.
     and_then (parse_how s3) (\<lambda>s4.
     and_then (parse_why s4) (\<lambda>s5.
     and_then (parse_citations s5) (\<lambda>s6.
     and_then (parse_description s6) parse_reference))))))"

text \<open>
  \<^verbatim>\<open>parse(options)\<close>: \<open>None\<close> is the default argument. The options are stored only in
  that case.
\<close>

definition parse :: "(string \<times> string) list option \<Rightarrow> voevent \<Rightarrow> error + voevent" where
  "parse opts self =
     and_then (parse_head (if opts = None then self\<lparr>options := Some [(''conversion'', ''force'')]\<rparr>
                           else self)) parse_sections"

section \<open>Example documents\<close>

text \<open>
  A root element of version 2.0 with the role \<^verbatim>\<open>observation\<close>, a given IVORN and given
  children, and the smallest \<^verbatim>\<open>WhereWhen\<close> that \<^verbatim>\<open>parse_wherewhen\<close> gets through, around
  given children of \<^verbatim>\<open>ObservationLocation\<close>.
\<close>

definition event :: "string \<Rightarrow> string element list \<Rightarrow> string element" where
  "event iv kids = Element ''{http://www.ivoa.net/xml/VOEvent/v2.0}VOEvent'' None
     [(''version'', ''2.0''), (''role'', ''observation''), (''ivorn'', iv)] kids"

definition where_when :: "string element list \<Rightarrow> string element" where
  "where_when kids = Element ''WhereWhen'' None []
     [Element ''ObsDataLocation'' None [] [Element ''ObservationLocation'' None [] kids]]"

definition leaf :: "string \<Rightarrow> string \<Rightarrow> string element" where
  "leaf t x = Element t (Some x) [] []"

text \<open>
  An \<^verbatim>\<open>AstroCoords\<close> element whose position has given texts for \<^verbatim>\<open>Name1\<close>,
  \<^verbatim>\<open>Name2\<close>, \<^verbatim>\<open>C1\<close> and \<^verbatim>\<open>C2\<close>.
\<close>

definition astro_coords :: "string \<Rightarrow> string \<Rightarrow> string \<Rightarrow> string \<Rightarrow> string element" where
  "astro_coords n1 n2 c1 c2 = Element ''AstroCoords'' None []
     [Element ''Position2D'' None []
        [leaf ''Name1'' n1, leaf ''Name2'' n2,
         Element ''Value2'' None [] [leaf ''C1'' c1, leaf ''C2'' c2]]]"

definition obs_location :: "string element list \<Rightarrow> string element" where
  "obs_location kids = Element ''ObservationLocation'' None [] kids"

text \<open>A document with two elements for each of Citations, Description and Reference.\<close>

definition twice_doc :: "string element" where
  "twice_doc = event ''ivo://example.org/test#1''
     [where_when [],
      Element ''Citations'' None [] [Element ''EventIVORN'' (Some ''ivo://x/y#1'') [(''cite'', ''followup'')] []],
      Element ''Citations'' None [] [Element ''EventIVORN'' (Some ''ivo://x/y#2'') [(''cite'', ''retraction'')] []],
      Element ''Description'' None [] [leaf ''p'' ''one''],
      Element ''Description'' None [] [leaf ''p'' ''two''],
      Element ''Reference'' None [] [leaf ''a'' ''one''],
      Element ''Reference'' None [] [leaf ''a'' ''two'']]"

text \<open>A document with a What element that holds one Param, and the role \<^verbatim>\<open>bogus\<close>.\<close>

definition bogus_role_doc :: "string element" where
  "bogus_role_doc = Element ''{http://www.ivoa.net/xml/VOEvent/v2.0}VOEvent'' None
     [(''version'', ''2.0''), (''role'', ''bogus''), (''ivorn'', ''ivo://example.org/test#1'')]
     [Element ''What'' None []
        [Element ''Param'' None [(''name'', ''flux''), (''dataType'', ''float''), (''value'', ''1.23'')] []],
      where_when []]"

text \<open>A document with a What element that holds one Param.\<close>

definition what_doc :: "string element" where
  "what_doc = event ''ivo://example.org/test#1''
     [Element ''What'' None []
        [Element ''Param'' None [(''name'', ''flux''), (''dataType'', ''float''), (''value'', ''1.23'')] []],
      where_when []]"

section \<open>Properties of convert\_value\<close>

lemma infer_value_empty: "infer_value (PStr []) = Inr (PStr [])"
  by code_simp

lemma infer_value_None: "infer_value PNone = Inr PNone"
  by (simp add: infer_value_def)

lemma declared_value_falsy: "\<not> truthy tmpval \<Longrightarrow> declared_value tmpval v datatype = Inr v"
  by (simp add: declared_value_def)

text \<open>
  Claim C9, as the code has it. For every conversion mode and declared type,
  \<^verbatim>\<open>convert_value\<close> returns \<^verbatim>\<open>None\<close> when the raw input is absent; when the raw input
  is the empty string it returns the empty string unchanged, not \<^verbatim>\<open>None\<close>. (The first
  block is guarded by \<^verbatim>\<open>tmpval is not None\<close>, and no attempt on the empty string
  succeeds; the second block is guarded by the truth value of \<open>tmpval\<close>.)
\<close>

theorem convert_value_absent_or_empty:
  "convert_value PNone conversion datatype = Inr PNone
   \<and> convert_value (PStr []) conversion datatype = Inr (PStr [])"
  by (simp add: convert_value_def and_then_def infer_value_empty infer_value_None
      declared_value_falsy)

text \<open>
  Counterexample to claim C9 as stated: on the empty string, under \<^verbatim>\<open>force\<close> and with no
  declared type, the result is not \<^verbatim>\<open>None\<close>.
\<close>

theorem convert_value_empty_counterexample:
  "convert_value (PStr []) ''force'' PNone \<noteq> Inr PNone"
  by code_simp

text \<open>
  Claim C3. The claim expects \<^verbatim>\<open>convert_value("2020-01-02 03:04:05.5")\<close> under
  \<^verbatim>\<open>force\<close> to be the timestamp 2020-01-02T03:04:05.5. The code returns the string
  unchanged: after cutting off the fraction it splits \<open>value\<close> again at the whitespace,
  so \<open>strptime\<close> receives \<^verbatim>\<open>2020-01-02T03:04:05.5\<close> and rejects the trailing
  \<^verbatim>\<open>.5\<close>.
\<close>

theorem convert_value_spaced_fraction:
  "convert_value (PStr ''2020-01-02 03:04:05.5'') ''force'' PNone
     = Inr (PStr ''2020-01-02 03:04:05.5'')"
  by code_simp

text \<open>
  The same instant written with \<^verbatim>\<open>T\<close>, or with a space and no fraction, does become a
  timestamp: the attempt works wherever the second split does not reintroduce the
  fraction.
\<close>

lemma convert_value_T_fraction:
  "convert_value (PStr ''2020-01-02T03:04:05.5'') ''force'' PNone
     = Inr (PDatetime (Datetime 2020 1 2 3 4 5 500000))"
  by code_simp

lemma convert_value_spaced_whole:
  "convert_value (PStr ''2020-01-02 03:04:05'') ''force'' PNone
     = Inr (PDatetime (Datetime 2020 1 2 3 4 5 0))"
  by code_simp

text \<open>
  Claim C4. The claim says that only a declared \<^verbatim>\<open>int\<close> or \<^verbatim>\<open>float\<close> whose string does
  not parse raises. Under \<^verbatim>\<open>always\<close> with the declared type \<^verbatim>\<open>bool\<close>, the string
  \<^verbatim>\<open>true\<close> raises \<^verbatim>\<open>AttributeError\<close>: the first block has already made \<open>value\<close> the
  boolean \<^verbatim>\<open>True\<close>, and the boolean branch of the second block calls \<^verbatim>\<open>.lower()\<close> on
  \<open>value\<close> instead of \<open>tmpval\<close>.
\<close>

theorem convert_value_always_bool_raises:
  "convert_value (PStr ''true'') ''always'' (PStr ''bool'') = Inl AttributeError"
  by code_simp

text \<open>Under \<^verbatim>\<open>given\<close> the first block is skipped and the same input converts.\<close>

lemma convert_value_given_bool:
  "convert_value (PStr ''true'') ''given'' (PStr ''bool'') = Inr (PBool True)"
  by code_simp

text \<open>
  A second exception that is not a failed \<^verbatim>\<open>int\<close> or \<^verbatim>\<open>float\<close>: a fraction too large
  for a \<^verbatim>\<open>timedelta\<close> raises \<^verbatim>\<open>OverflowError\<close>, which the timestamp attempt does not
  catch.
\<close>

lemma convert_value_fraction_overflow:
  "convert_value (PStr ''2020-01-02T03:04:05.5e400'') ''force'' PNone = Inl OverflowError"
  by code_simp

section \<open>Properties of the flattener\<close>

text \<open>
  Claim C1. The claim says that flattening leaves the element as it was. The call below
  changes the attribute \<^verbatim>\<open>count\<close> of its argument from the string \<^verbatim>\<open>42\<close> to the
  integer 42: \<^verbatim>\<open>parse_element\<close> assigns the converted values into the element's own
  attribute dictionary.
\<close>

theorem parse_element_changes_element:
  "parse_element (Element ''Param'' None [(''name'', PStr ''n''), (''count'', PStr ''42'')] [])
       ''force'' True
     = Inr (Element ''Param'' None [(''name'', PStr ''n''), (''count'', PInt 42)] [],
            Node ''Param'' (PStr ''n'') None [(''name'', PStr ''n''), (''count'', PInt 42)] PNone [])"
  by code_simp

text \<open>
  What a call of \<^verbatim>\<open>parse_element\<close> does keep: the tag, the text, the children and the
  keys of the attributes in their order; the attributes of the result are those the element
  has after the call. Without conversion the element is not changed at all.
\<close>

lemma convert_attribs_keys: "convert_attribs conversion d = Inr d' \<Longrightarrow> map fst d' = map fst d"
  by (induction d arbitrary: d') (auto simp: and_then_def split: sum.splits if_splits)

lemma parse_element_frame:
  "parse_element e conversion stripws = Inr (e', n) \<Longrightarrow>
     tag e' = tag e \<and> etext e' = etext e \<and> children e' = children e
     \<and> map fst (attrib e') = map fst (attrib e) \<and> n_attributes n = attrib e'"
  by (auto simp: parse_element_def and_then_def Let_def convert_attribs_keys
      split: sum.splits if_splits)

lemma convert_value_none: "convert_value v ''none'' datatype = Inr v"
  by (simp add: convert_value_def and_then_def)

lemma convert_attribs_none: "convert_attribs ''none'' d = Inr d"
  by (induction d) (auto simp: and_then_def convert_value_none)

lemma parse_element_none:
  "parse_element e ''none'' stripws = Inr (e', n) \<Longrightarrow> e' = e"
  by (cases e)
    (auto simp: parse_element_def and_then_def Let_def convert_attribs_none convert_value_none
      split: if_splits sum.splits)

text \<open>
  Claim C2. The claim says that two successive calls on the same element both succeed
  with equal results. After the first call below the attribute \<^verbatim>\<open>count\<close> of the child
  holds an integer, and the second call on the element as the first call left it raises
  \<^verbatim>\<open>AttributeError\<close>, from \<^verbatim>\<open>tmpval.lower()\<close> on that integer.
\<close>

theorem xml2python_second_call_raises:
  "xml2python (Element ''What'' None [] [Element ''Param'' None [(''count'', PStr ''42'')] []])
       ''force'' True False
     = Inr (Element ''What'' None [] [Element ''Param'' None [(''count'', PInt 42)] []],
            Data [Node ''Param'' (PStr ''Param'') None [(''count'', PInt 42)] PNone []])
   \<and> xml2python (Element ''What'' None [] [Element ''Param'' None [(''count'', PInt 42)] []])
       ''force'' True False
     = Inl AttributeError"
  by code_simp

section \<open>Properties of VOEvent.parse\<close>

subsection \<open>The shape of the IVORN\<close>

lemma split_all_unfold:
  "split_all sep s = (case split_once sep s of None \<Rightarrow> [s] | Some (a, b) \<Rightarrow> a # split_all sep b)"
  by (induction s) (auto simp: split_once_def split: list.splits)

lemma split_max_length: "length (split_max sep n s) = min (Suc n) (length (split_all sep s))"
proof (induction n arbitrary: s)
  case 0
  then show ?case by (cases s) (auto split: list.splits)
next
  case (Suc n)
  show ?case
    by (subst split_all_unfold) (auto simp: Suc split: option.splits)
qed

lemma split_max_nth:
  "i < n \<Longrightarrow> i < length (split_all sep s) \<Longrightarrow> split_max sep n s ! i = split_all sep s ! i"
proof (induction n arbitrary: s i)
  case 0
  then show ?case by simp
next
  case (Suc n)
  show ?case
  proof (cases "split_once sep s")
    case None
    with Suc.prems show ?thesis by (subst split_all_unfold) simp
  next
    case (Some p)
    obtain a b where p: "p = (a, b)" by (cases p)
    have unf: "split_all sep s = a # split_all sep b"
      by (subst split_all_unfold) (simp add: Some p)
    show ?thesis
    proof (cases i)
      case 0
      then show ?thesis by (simp add: Some p unf)
    next
      case (Suc j)
      with Suc.prems unf have "j < n" "j < length (split_all sep b)" by auto
      then have "split_max sep n b ! j = split_all sep b ! j" by (rule Suc.IH)
      then show ?thesis by (simp add: Some p unf Suc)
    qed
  qed
qed

text \<open>
  The decomposition in terms of all the segments of the IVORN between slashes: the cut
  after the fourth slash only spares the code the segments it does not read.
\<close>

lemma split_ivorn_shape:
  "split_ivorn iv = (let segs = split_all CHR ''/'' iv in
     if length segs < 4 then Inl IndexError
     else if CHR ''#'' \<notin> set (segs ! 3) then Inl ValueError
     else Inr [(''authority'', Scalar (PStr (segs ! 2))),
               (''resourcekey'', Scalar (PStr (takeWhile (\<lambda>c. c \<noteq> CHR ''#'') (segs ! 3)))),
               (''localid'', Scalar (PStr (tl (dropWhile (\<lambda>c. c \<noteq> CHR ''#'') (segs ! 3)))))])"
proof -
  let ?segs = "split_all CHR ''/'' iv"
  let ?keys = "split_max CHR ''/'' 4 iv"
  have len: "length ?keys = min 5 (length ?segs)"
    using split_max_length [of "CHR ''/''" 4 iv] by simp
  show ?thesis
  proof (cases "length ?segs < 4")
    case True
    with len show ?thesis by (auto simp: split_ivorn_def Let_def)
  next
    case False
    then have k2: "?keys ! 2 = ?segs ! 2" and k3: "?keys ! 3 = ?segs ! 3"
      by (simp_all add: split_max_nth)
    from False len have "\<not> length ?keys \<le> 2" "\<not> length ?keys \<le> 3" by auto
    with False k2 k3 show ?thesis
      by (simp add: split_ivorn_def Let_def split_once_def)
  qed
qed

lemma parse_head_valid:
  assumes "root_tag_ok (tag (xmltree self))"
    and "map_of (attrib (xmltree self)) ''version'' = Some v"
    and "map_int (split_all CHR ''.'' v) = Inr (2 # rest)"
    and "map_of (attrib (xmltree self)) ''role'' = Some r"
    and "r \<in> set [''observation'', ''prediction'', ''utility'', ''test'']"
    and "map_of (attrib (xmltree self)) ''ivorn'' = Some iv"
  shows "parse_head self = and_then (split_ivorn iv) (\<lambda>ident.
     Inr (self\<lparr>version := Some (2, case rest of [] \<Rightarrow> 0 | b # _ \<Rightarrow> b), role := Some r,
               ivorn := Some iv, eventid := Some ident\<rparr>))"
  using assms
  by (cases rest) (auto simp: parse_head_def dict_item_def and_then_def Let_def)

lemma parse_who_eventid: "parse_who self = Inr s \<Longrightarrow> eventid s = eventid self"
  by (auto simp: parse_who_def and_then_def Let_def split: sum.splits if_splits list.splits)

lemma parse_what_eventid: "parse_what self = Inr s \<Longrightarrow> eventid s = eventid self"
  by (auto simp: parse_what_def and_then_def Let_def split: sum.splits if_splits list.splits)

lemma wherewhen_position_eventid:
  "wherewhen_position self obsloc = Inr s \<Longrightarrow> eventid s = eventid self"
  by (auto simp: wherewhen_position_def and_then_def Let_def
      split: sum.splits if_splits option.splits)

lemma parse_coord_system_eventid:
  "parse_coord_system self el = Inr (s, v) \<Longrightarrow> eventid s = eventid self"
  by (auto simp: parse_coord_system_def and_then_def Let_def
      split: sum.splits if_splits option.splits)

lemma parse_wherewhen_eventid: "parse_wherewhen self = Inr s \<Longrightarrow> eventid s = eventid self"
  by (auto simp: parse_wherewhen_def and_then_def Let_def
      dest!: wherewhen_position_eventid parse_coord_system_eventid
      split: sum.splits if_splits list.splits option.splits prod.splits)

lemma parse_how_eventid: "parse_how self = Inr s \<Longrightarrow> eventid s = eventid self"
  by (auto simp: parse_how_def Let_def split: if_splits list.splits)

lemma parse_why_eventid: "parse_why self = Inr s \<Longrightarrow> eventid s = eventid self"
  by (auto simp: parse_why_def and_then_def Let_def
      split: sum.splits if_splits list.splits option.splits)

lemma parse_citations_eventid: "parse_citations self = Inr s \<Longrightarrow> eventid s = eventid self"
  by (auto simp: parse_citations_def and_then_def split: sum.splits if_splits option.splits)

lemma parse_description_eventid: "parse_description self = Inr s \<Longrightarrow> eventid s = eventid self"
  by (auto simp: parse_description_def split: list.splits option.splits)

lemma parse_reference_eventid: "parse_reference self = Inr s \<Longrightarrow> eventid s = eventid self"
  by (auto simp: parse_reference_def split: list.splits option.splits)

text \<open>No extractor touches the identity: what the head stored is what the result holds.\<close>

lemma parse_sections_eventid:
  assumes "parse_sections self = Inr s"
  shows "eventid s = eventid self"
proof -
  from assms obtain s1 s2 s3 s4 s5 s6 s7 where
    "parse_who self = Inr s1" "parse_what s1 = Inr s2" "parse_wherewhen s2 = Inr s3"
    "parse_how s3 = Inr s4" "parse_why s4 = Inr s5" "parse_citations s5 = Inr s6"
    "parse_description s6 = Inr s7" "parse_reference s7 = Inr s"
    by (auto simp: parse_sections_def and_then_def split: sum.splits)
  then show ?thesis
    using parse_who_eventid parse_what_eventid parse_wherewhen_eventid parse_how_eventid
      parse_why_eventid parse_citations_eventid parse_description_eventid parse_reference_eventid
    by metis
qed

text \<open>
  Claim C6, as the code has it. For a document whose root tag, version and role pass
  their checks and that has an \<^verbatim>\<open>ivorn\<close> attribute: with fewer than four segments
  between slashes the whole parse fails with \<^verbatim>\<open>IndexError\<close>; with four or more and no
  \<^verbatim>\<open>#\<close> in the fourth it fails with \<^verbatim>\<open>ValueError\<close>; otherwise \<^verbatim>\<open>parse\<close> goes on to
  the extractors with the identity decomposed. So whenever \<^verbatim>\<open>parse\<close> returns, the IVORN
  has at least four segments, the fourth contains at least one \<^verbatim>\<open>#\<close>, and the result
  holds the identity: the authority is the third segment, the resource key is the part of
  the fourth before its first \<^verbatim>\<open>#\<close>, the local identifier is all that follows that
  \<^verbatim>\<open>#\<close> in the fourth segment.
\<close>

theorem parse_ivorn_shape:
  assumes "root_tag_ok (tag (xmltree self))"
    and "map_of (attrib (xmltree self)) ''version'' = Some v"
    and "map_int (split_all CHR ''.'' v) = Inr (2 # rest)"
    and "map_of (attrib (xmltree self)) ''role'' = Some r"
    and "r \<in> set [''observation'', ''prediction'', ''utility'', ''test'']"
    and "map_of (attrib (xmltree self)) ''ivorn'' = Some iv"
  shows "(let segs = split_all CHR ''/'' iv;
           self0 = (if opts = None then self\<lparr>options := Some [(''conversion'', ''force'')]\<rparr> else self);
           ident = [(''authority'', Scalar (PStr (segs ! 2))),
              (''resourcekey'', Scalar (PStr (takeWhile (\<lambda>c. c \<noteq> CHR ''#'') (segs ! 3)))),
              (''localid'', Scalar (PStr (tl (dropWhile (\<lambda>c. c \<noteq> CHR ''#'') (segs ! 3)))))]
      in parse opts self =
           (if length segs < 4 then Inl IndexError
            else if CHR ''#'' \<notin> set (segs ! 3) then Inl ValueError
            else parse_sections (self0\<lparr>
              version := Some (2, case rest of [] \<Rightarrow> 0 | b # _ \<Rightarrow> b),
              role := Some r, ivorn := Some iv, eventid := Some ident\<rparr>))
         \<and> (\<forall>s. parse opts self = Inr s \<longrightarrow>
               4 \<le> length segs \<and> CHR ''#'' \<in> set (segs ! 3) \<and> eventid s = Some ident))"
proof -
  let ?self0 = "if opts = None then self\<lparr>options := Some [(''conversion'', ''force'')]\<rparr> else self"
  let ?segs = "split_all CHR ''/'' iv"
  let ?ident = "[(''authority'', Scalar (PStr (?segs ! 2))),
              (''resourcekey'', Scalar (PStr (takeWhile (\<lambda>c. c \<noteq> CHR ''#'') (?segs ! 3)))),
              (''localid'', Scalar (PStr (tl (dropWhile (\<lambda>c. c \<noteq> CHR ''#'') (?segs ! 3)))))]"
  let ?s0 = "?self0\<lparr>version := Some (2, case rest of [] \<Rightarrow> 0 | b # _ \<Rightarrow> b),
              role := Some r, ivorn := Some iv, eventid := Some ?ident\<rparr>"
  have x: "xmltree ?self0 = xmltree self" by simp
  have "parse_head ?self0 = and_then (split_ivorn iv) (\<lambda>ident.
     Inr (?self0\<lparr>version := Some (2, case rest of [] \<Rightarrow> 0 | b # _ \<Rightarrow> b), role := Some r,
               ivorn := Some iv, eventid := Some ident\<rparr>))"
    using assms by (intro parse_head_valid [where v = v]) (simp_all add: x)
  then have eq: "parse opts self =
           (if length ?segs < 4 then Inl IndexError
            else if CHR ''#'' \<notin> set (?segs ! 3) then Inl ValueError
            else parse_sections ?s0)"
    unfolding parse_def by (simp add: split_ivorn_shape Let_def and_then_def)
  have "4 \<le> length ?segs \<and> CHR ''#'' \<in> set (?segs ! 3) \<and> eventid s = Some ?ident"
    if ret: "parse opts self = Inr s" for s
  proof -
    from ret eq have shape: "\<not> length ?segs < 4" "CHR ''#'' \<in> set (?segs ! 3)"
      by (auto split: if_splits)
    with ret eq have "parse_sections ?s0 = Inr s" by simp
    then have "eventid s = eventid ?s0" by (rule parse_sections_eventid)
    with shape show ?thesis by simp
  qed
  with eq show ?thesis by (simp add: Let_def)
qed

text \<open>
  The theorem at the document of the specification, with the IVORN
  \<^verbatim>\<open>ivo://example.org/test#1\<close> and a WhereWhen element: \<^verbatim>\<open>parse\<close> returns, and the
  result holds the identity \<open>example.org\<close>, \<open>test\<close>, \<open>1\<close>.
\<close>

theorem parse_ivorn_shape_witness:
  "\<not> isl (parse None (init (event ''ivo://example.org/test#1'' [where_when []])))
   \<and> map_sum (\<lambda>e. e) eventid (parse None (init (event ''ivo://example.org/test#1'' [where_when []])))
       = Inr (Some [(''authority'', Scalar (PStr ''example.org'')),
                    (''resourcekey'', Scalar (PStr ''test'')),
                    (''localid'', Scalar (PStr ''1''))])"
proof -
  let ?self = "init (event ''ivo://example.org/test#1'' [where_when []])"
  have h1: "root_tag_ok (tag (xmltree ?self))" by code_simp
  have h2: "map_of (attrib (xmltree ?self)) ''version'' = Some ''2.0''" by code_simp
  have h3: "map_int (split_all CHR ''.'' ''2.0'') = Inr (2 # [0])" by code_simp
  have h4: "map_of (attrib (xmltree ?self)) ''role'' = Some ''observation''" by code_simp
  have h5: "''observation'' \<in> set [''observation'', ''prediction'', ''utility'', ''test'']" by simp
  have h6: "map_of (attrib (xmltree ?self)) ''ivorn'' = Some ''ivo://example.org/test#1''" by code_simp
  have segs: "split_all CHR ''/'' ''ivo://example.org/test#1'' = [''ivo:'', [], ''example.org'', ''test#1'']"
    by code_simp
  have ok: "\<not> isl (parse None ?self)" by code_simp
  then obtain s where ret: "parse None ?self = Inr s" by (cases "parse None ?self") auto
  from parse_ivorn_shape [OF h1 h2 h3 h4 h5 h6, of None] ret
  have "eventid s = Some [(''authority'', Scalar (PStr ''example.org'')),
                    (''resourcekey'', Scalar (PStr ''test'')),
                    (''localid'', Scalar (PStr ''1''))]"
    by (simp add: segs Let_def)
  with ok ret show ?thesis by simp
qed

text \<open>
  Counterexample to claim C6 as stated: the IVORN \<^verbatim>\<open>ivo://a/b#c#d/e\<close> has five segments
  and two \<^verbatim>\<open>#\<close> in the fourth, and the whole parse succeeds with the identity
  \<open>a\<close>, \<open>b\<close>, \<open>c#d\<close>.
\<close>

theorem parse_ivorn_counterexample:
  "length (split_all CHR ''/'' ''ivo://a/b#c#d/e'') = 5
   \<and> map_sum (\<lambda>e. e) eventid (parse None (init (event ''ivo://a/b#c#d/e'' [where_when []])))
       = Inr (Some [(''authority'', Scalar (PStr ''a'')), (''resourcekey'', Scalar (PStr ''b'')),
                    (''localid'', Scalar (PStr ''c#d''))])"
  by code_simp

subsection \<open>Options\<close>

lemma parse_head_keeps:
  "parse_head self = Inr s \<Longrightarrow> options s = options self \<and> xmltree s = xmltree self"
  by (auto simp: parse_head_def and_then_def Let_def split: sum.splits if_splits list.splits prod.splits)

lemma parse_who_keeps:
  "parse_who self = Inr s \<Longrightarrow> options s = options self \<and> xmltree s = xmltree self"
  by (auto simp: parse_who_def and_then_def Let_def split: sum.splits if_splits list.splits)

lemma parse_what_unset:
  "options self = None \<Longrightarrow> findall [''What''] (xmltree self) = [w]
     \<Longrightarrow> parse_what self = Inl AttributeError"
  by (simp add: parse_what_def parse_what_group_def and_then_def Let_def)

text \<open>
  Claim C10, as the code has it. On a new instance, \<^verbatim>\<open>parse\<close> with an argument other
  than \<^verbatim>\<open>None\<close> raises \<^verbatim>\<open>AttributeError\<close> for every document that gets as far as the
  What extractor (the checks of root tag, version, role and IVORN and the Who extractor
  pass) and has exactly one What element: \<^verbatim>\<open>self.options\<close> is assigned only when the
  argument is \<^verbatim>\<open>None\<close>, and \<^verbatim>\<open>parse_what_group\<close> reads it first of all. This holds
  whatever the children of the What element are, so in particular when one of them is a
  Param or a Group.
\<close>

theorem parse_options_not_stored:
  assumes opts: "opts \<noteq> None"
    and head: "parse_head (init tree) = Inr s0"
    and who: "parse_who s0 = Inr s1"
    and what: "findall [''What''] tree = [w]"
  shows "parse opts (init tree) = Inl AttributeError"
proof -
  have "options s0 = None" "xmltree s0 = tree"
    using parse_head_keeps [OF head] by (simp_all add: init_def)
  with parse_who_keeps [OF who] have "options s1 = None" "xmltree s1 = tree" by simp_all
  with what have w: "parse_what s1 = Inl AttributeError" by (simp add: parse_what_unset)
  from opts have sel: "(if opts = None then (init tree)\<lparr>options := Some [(''conversion'', ''force'')]\<rparr>
      else init tree) = init tree" by (cases opts) simp_all
  show ?thesis
    unfolding parse_def sel by (simp add: head who w parse_sections_def and_then_def)
qed

text \<open>The theorem at a document whose What element holds one Param.\<close>

theorem parse_options_not_stored_witness:
  "findall [''What''] what_doc =
     [Element ''What'' None []
        [Element ''Param'' None [(''name'', ''flux''), (''dataType'', ''float''), (''value'', ''1.23'')] []]]
   \<and> parse (Some [(''conversion'', ''force'')]) (init what_doc) = Inl AttributeError"
proof -
  let ?s0 = "(init what_doc)\<lparr>version := Some (2, 0), role := Some ''observation'',
     ivorn := Some ''ivo://example.org/test#1'',
     eventid := Some [(''authority'', Scalar (PStr ''example.org'')),
                      (''resourcekey'', Scalar (PStr ''test'')),
                      (''localid'', Scalar (PStr ''1''))]\<rparr>"
  have h1: "Some [(''conversion'', ''force'')] \<noteq> (None :: (string \<times> string) list option)" by simp
  have h2: "parse_head (init what_doc) = Inr ?s0" by code_simp
  have h3: "parse_who ?s0 = Inr ?s0" by code_simp
  have h4: "findall [''What''] what_doc =
     [Element ''What'' None []
        [Element ''Param'' None [(''name'', ''flux''), (''dataType'', ''float''), (''value'', ''1.23'')] []]]"
    by code_simp
  from parse_options_not_stored [OF h1 h2 h3 h4] h4 show ?thesis by simp
qed

text \<open>
  Counterexample to claim C10 as stated: the document below has a What element with a
  Param child, and \<^verbatim>\<open>parse\<close> with an argument other than \<^verbatim>\<open>None\<close> raises
  \<^verbatim>\<open>AssertionError\<close>, not \<^verbatim>\<open>AttributeError\<close>: the role is checked before any extractor
  runs.
\<close>

theorem parse_options_counterexample:
  "parse (Some [(''conversion'', ''force'')]) (init bogus_role_doc) = Inl AssertionError"
  by code_simp

text \<open>
  So does a second What element, which \<^verbatim>\<open>parse_what\<close> refuses before it calls
  \<^verbatim>\<open>parse_what_group\<close>.
\<close>

lemma parse_options_two_what:
  "parse (Some [(''conversion'', ''force'')])
     (init (event ''ivo://example.org/test#1''
        [Element ''What'' None [] [Element ''Param'' None [(''name'', ''a'')] []],
         Element ''What'' None [] [Element ''Param'' None [(''name'', ''b'')] []]]))
   = Inl AssertionError"
  by code_simp

text \<open>With the default argument the document \<open>what_doc\<close> is parsed.\<close>

lemma parse_default_options:
  "map_sum (\<lambda>e. e) what (parse None (init what_doc))
     = Inr [(''flux'', Param (PFloat (Finite (123 / 100))) PNone PNone)]"
  by code_simp

subsection \<open>Sections that occur twice\<close>

lemma parse_who_duplicate:
  "1 < length (findall [''Who''] (xmltree self)) \<Longrightarrow> parse_who self = Inl AssertionError"
  by (simp add: parse_who_def Let_def)

lemma parse_what_duplicate:
  "1 < length (findall [''What''] (xmltree self)) \<Longrightarrow> parse_what self = Inl AssertionError"
  by (simp add: parse_what_def Let_def)

lemma parse_wherewhen_duplicate:
  "1 < length (findall [''WhereWhen''] (xmltree self)) \<Longrightarrow> parse_wherewhen self = Inl AssertionError"
  by (simp add: parse_wherewhen_def Let_def)

lemma parse_how_duplicate:
  "1 < length (findall [''How''] (xmltree self)) \<Longrightarrow> parse_how self = Inl AssertionError"
  by (simp add: parse_how_def Let_def)

lemma parse_why_duplicate:
  "1 < length (findall [''Why''] (xmltree self)) \<Longrightarrow> parse_why self = Inl AssertionError"
  by (simp add: parse_why_def Let_def)

text \<open>
  Claim C5. The claim says that a second element with any of the eight section tags
  makes \<^verbatim>\<open>parse\<close> fail. The extractors for Who, What, WhereWhen, How and Why assert that
  there is at most one (the five lemmas above). Those for Citations, Description and
  Reference take the first match and never count: the document below has two elements
  with each of these three tags, and \<^verbatim>\<open>parse\<close> returns normally, with the contents of the
  first of each.
\<close>

theorem parse_duplicates_accepted:
  "length (findall [''Citations''] twice_doc) = 2
   \<and> length (findall [''Description''] twice_doc) = 2
   \<and> length (findall [''Reference''] twice_doc) = 2
   \<and> map_sum (\<lambda>e. e) (\<lambda>s. (citations s, Description s, Reference s)) (parse None (init twice_doc))
       = Inr (Some [(''followup'', Some ''ivo://x/y#1'')],
              Some (leaf ''p'' ''one''), Some (leaf ''a'' ''one''))"
  by code_simp

subsection \<open>WhereWhen\<close>

text \<open>
  Claim C8, as the code has it. When \<^verbatim>\<open>ObservationLocation\<close> has an
  \<^verbatim>\<open>AstroCoordSystem\<close> child, \<^verbatim>\<open>parse_coord_system\<close> raises \<^verbatim>\<open>ValueError\<close> exactly when
  the child has an \<^verbatim>\<open>id\<close> attribute whose value is outside the list of frame codes; a
  child without an \<^verbatim>\<open>id\<close> attribute raises \<^verbatim>\<open>KeyError\<close>; otherwise the identifier is
  returned.
\<close>

theorem parse_coord_system_id:
  assumes "find_el [''AstroCoordSystem''] el = Some sys"
  shows "parse_coord_system self el =
     (case map_of (attrib sys) ''id'' of
        None \<Rightarrow> Inl KeyError
      | Some ident \<Rightarrow> if ident \<in> set coord_systems
          then Inr (self\<lparr>coordsystem := Some PNone\<rparr>, PStr ident) else Inl ValueError)"
  using assms
  by (simp add: parse_coord_system_def dict_item_def and_then_def Let_def split: option.splits)

theorem parse_coord_system_id_witness:
  "find_el [''AstroCoordSystem'']
       (obs_location [Element ''AstroCoordSystem'' None [(''id'', ''UTC-FK5-GEO'')] []])
     = Some (Element ''AstroCoordSystem'' None [(''id'', ''UTC-FK5-GEO'')] [])
   \<and> parse_coord_system (init (event ''ivo://example.org/test#1'' []))
       (obs_location [Element ''AstroCoordSystem'' None [(''id'', ''UTC-FK5-GEO'')] []])
     = Inr ((init (event ''ivo://example.org/test#1'' []))\<lparr>coordsystem := Some PNone\<rparr>,
            PStr ''UTC-FK5-GEO'')"
proof -
  have h: "find_el [''AstroCoordSystem'']
       (obs_location [Element ''AstroCoordSystem'' None [(''id'', ''UTC-FK5-GEO'')] []])
     = Some (Element ''AstroCoordSystem'' None [(''id'', ''UTC-FK5-GEO'')] [])"
    by code_simp
  show ?thesis
    using parse_coord_system_id [OF h, of "init (event ''ivo://example.org/test#1'' [])"] h
    by (simp add: coord_systems_def)
qed

text \<open>Without an \<^verbatim>\<open>AstroCoordSystem\<close> child nothing is checked and \<^verbatim>\<open>None\<close> is returned.\<close>

lemma parse_coord_system_absent:
  "find_el [''AstroCoordSystem''] el = None \<Longrightarrow>
     parse_coord_system self el = Inr (self\<lparr>coordsystem := Some PNone\<rparr>, PNone)"
  by (simp add: parse_coord_system_def)

text \<open>
  Counterexample to claim C8 as stated: an \<^verbatim>\<open>AstroCoordSystem\<close> element without an
  \<^verbatim>\<open>id\<close> attribute makes the whole parse fail, with \<^verbatim>\<open>KeyError\<close>.
\<close>

theorem parse_coord_system_counterexample:
  "parse None (init (event ''ivo://example.org/test#1''
       [where_when [Element ''AstroCoordSystem'' None [] []]])) = Inl KeyError"
  by code_simp



text \<open>With the names \<^verbatim>\<open>RA\<close> and \<^verbatim>\<open>Dec\<close> the same values give a position.\<close>

lemma wherewhen_position_example:
  "map_sum (\<lambda>e. e) position2d (wherewhen_position (init (event ''ivo://example.org/test#1'' []))
       (obs_location [astro_coords ''RA'' ''Dec'' ''1.5'' ''-2.25'']))
     = Inr (Position2D (PFloat (Finite (3 / 2))) (PFloat (Finite (- 9 / 4))) PNone)"
  by code_simp


end
